theory Spec2Isabelle
  imports Main
begin

section \<open>Strings and numbers of the source language\<close>

text \<open>
  The program is TypeScript run by Node.js. A source string is a sequence of UTF-16 code
  units; the model uses \<open>string\<close>, where a \<open>char\<close> stands for a code unit below 256.
  A source number is a double, which holds every integer of magnitude up to \<open>2^53\<close>
  exactly; task ids and the id counter are integers in that range and are modelled as
  \<open>int\<close>.
\<close>

text \<open>
  The white space and line terminators that \<open>String.prototype.trim\<close> strips, among the
  code units below 256: TAB, LF, VT, FF, CR, SPACE and NBSP.
\<close>

definition is_space :: "char \<Rightarrow> bool" where
  "is_space c =
     (let n = (of_char c :: nat) in (9 \<le> n \<and> n \<le> 13) \<or> n = 32 \<or> n = 160)"

definition trim :: "string \<Rightarrow> string" where
  "trim s = rev (dropWhile is_space (rev (dropWhile is_space s)))"

section \<open>The data model\<close>

text \<open>
  \<open>interface Task\<close>. The field \<open>id\<close> is called \<open>task_id\<close> here, since \<open>id\<close> is the
  identity function of HOL. The type of \<open>status\<close> is the union
  \<open>'Pending' | 'Completed'\<close>, which is a string at run time: \<open>runMenu\<close> casts an
  arbitrary string to it, and \<open>updateTaskStatus\<close> checks it at run time.
\<close>

record Task =
  task_id :: int
  name :: string
  description :: string
  status :: string

text \<open>The private fields of \<open>class TaskManager\<close>.\<close>

record TaskManager =
  tasks :: "Task list"
  nextId :: int

text \<open>\<open>new TaskManager()\<close>: the field initialisers.\<close>

definition initial :: TaskManager where
  "initial = \<lparr>tasks = [], nextId = 1\<rparr>"

text \<open>
  Every \<open>throw\<close> of the source throws a plain \<open>Error\<close>; the errors differ by their
  message only. One constructor per message, with the values interpolated into it.
\<close>

datatype error =
    EmptyName                   \<comment> \<open>\<open>Task name cannot be empty.\<close>\<close>
  | NotFound int                \<comment> \<open>\<open>Task with ID ${id} not found.\<close>\<close>
  | InvalidStatus string        \<comment> \<open>\<open>Invalid status: '${status}'. Must be ...\<close>\<close>
  | NotFoundForUpdate int       \<comment> \<open>\<open>Task with ID ${id} not found for update.\<close>\<close>
  | InvalidId                   \<comment> \<open>\<open>Invalid ID entered.\<close>\<close>

text \<open>
  The two error kinds of the specification, as a partition of the messages: a
  validation error is an input that fails a precondition (empty name, malformed id,
  unrecognised status), a not-found error is an id that no task has.
\<close>

datatype error_kind = ValidationError | NotFoundError

fun kind :: "error \<Rightarrow> error_kind" where
  "kind EmptyName = ValidationError"
| "kind (NotFound i) = NotFoundError"
| "kind (InvalidStatus s) = ValidationError"
| "kind (NotFoundForUpdate i) = NotFoundError"
| "kind InvalidId = ValidationError"

text \<open>
  What \<open>console.log\<close> and the prompt write, one constructor per call site, with the
  values interpolated into the line. The decorative characters of the lines are left out.
\<close>

datatype console_line =
    TaskAdded int string            \<comment> \<open>\<open>Task ${id}: '${name}' added successfully.\<close>\<close>
  | TaskRemoved int                 \<comment> \<open>\<open>Task ID ${id} removed.\<close>\<close>
  | TasksHeader                     \<comment> \<open>\<open>--- Current Tasks ---\<close>\<close>
  | TasksEmpty                      \<comment> \<open>\<open>Your task list is empty!\<close>\<close>
  | TaskLine bool int string string \<comment> \<open>\<open>${statusIcon} [${id}] ${name} - Status: ${status}\<close>\<close>
  | TasksFooter                     \<comment> \<open>\<open>---------------------\<close>\<close>
  | AllCleared                      \<comment> \<open>\<open>All tasks cleared.\<close>\<close>
  | StatusUpdated int string        \<comment> \<open>\<open>Task ${id} status updated to: ${status}\<close>\<close>
  | Menu                            \<comment> \<open>the seven lines of \<open>displayMenu\<close>\<close>
  | Ask string                      \<comment> \<open>the text of a prompt\<close>
  | NoInput                         \<comment> \<open>\<open>No input received. Please try again.\<close>\<close>
  | Goodbye                         \<comment> \<open>\<open>Exiting Task Manager. Goodbye!\<close>\<close>
  | InvalidSelection                \<comment> \<open>\<open>Invalid selection. Please choose ...\<close>\<close>
  | Processing                      \<comment> \<open>\<open>Processing... (Simulating Async Delay)\<close>\<close>
  | OperationFailed error           \<comment> \<open>\<open>Operation Failed: ${error.message}\<close>\<close>

text \<open>
  What a method call leaves behind: \<open>Inr ()\<close> for a normal return (every method is
  declared \<open>void\<close>) or \<open>Inl e\<close> for a thrown error, the manager as it is at that moment
  (a method may have assigned a field before it throws), and the lines written.
\<close>

record outcome =
  result :: "error + unit"
  store :: TaskManager
  printed :: "console_line list"

section \<open>The methods of TaskManager\<close>

text \<open>
  \<open>addTask\<close>. The object literal reads \<open>nextId\<close> and increments it, then the task is
  pushed and the confirmation is written.
\<close>

definition addTask :: "string \<Rightarrow> string \<Rightarrow> TaskManager \<Rightarrow> outcome" where
  "addTask nm descr m =
     (if trim nm = [] then \<lparr>result = Inl EmptyName, store = m, printed = []\<rparr>
      else
        let newTask = \<lparr>task_id = nextId m,
                       name = trim nm,
                       description = (if trim descr = [] then ''No description provided.''
                                      else trim descr),
                       status = ''Pending''\<rparr>;
            m1 = m\<lparr>nextId := nextId m + 1\<rparr>;
            m2 = m1\<lparr>tasks := tasks m1 @ [newTask]\<rparr>
        in \<lparr>result = Inr (), store = m2,
            printed = [TaskAdded (task_id newTask) (name newTask)]\<rparr>)"

text \<open>
  \<open>removeTask\<close>. The filtered array is assigned to the field before the lengths are
  compared, so the assignment stands when the error is thrown.
\<close>

definition removeTask :: "int \<Rightarrow> TaskManager \<Rightarrow> outcome" where
  "removeTask i m =
     (let initialLength = length (tasks m);
          m1 = m\<lparr>tasks := filter (\<lambda>task. task_id task \<noteq> i) (tasks m)\<rparr>
      in if length (tasks m1) = initialLength
         then \<lparr>result = Inl (NotFound i), store = m1, printed = []\<rparr>
         else \<lparr>result = Inr (), store = m1, printed = [TaskRemoved i]\<rparr>)"

text \<open>\<open>listTasks\<close>: the loop over the array writes one line per task.\<close>

definition task_line :: "Task \<Rightarrow> console_line" where
  "task_line task =
     TaskLine (status task = ''Completed'') (task_id task) (name task) (status task)"

definition listTasks :: "TaskManager \<Rightarrow> outcome" where
  "listTasks m =
     (if length (tasks m) = 0
      then \<lparr>result = Inr (), store = m, printed = [TasksHeader, TasksEmpty]\<rparr>
      else \<lparr>result = Inr (), store = m,
            printed = TasksHeader # map task_line (tasks m) @ [TasksFooter]\<rparr>)"

definition clearTasks :: "TaskManager \<Rightarrow> outcome" where
  "clearTasks m = \<lparr>result = Inr (), store = m\<lparr>tasks := []\<rparr>, printed = [AllCleared]\<rparr>"

text \<open>
  \<open>updateTaskStatus\<close>. \<open>Array.prototype.find\<close> returns the first task with the id, as
  a reference to the object in the array, and the assignment goes through that
  reference: the task at the slot where \<open>find\<close> stopped gets the new status. Each task
  object is created by \<open>addTask\<close> and referenced from one array slot only, so no other
  slot changes.
\<close>

definition slot_of :: "int \<Rightarrow> Task list \<Rightarrow> nat" where
  "slot_of i ts = length (takeWhile (\<lambda>task. task_id task \<noteq> i) ts)"

definition updateTaskStatus :: "int \<Rightarrow> string \<Rightarrow> TaskManager \<Rightarrow> outcome" where
  "updateTaskStatus i st m =
     (if st \<noteq> ''Pending'' \<and> st \<noteq> ''Completed''
      then \<lparr>result = Inl (InvalidStatus st), store = m, printed = []\<rparr>
      else
        case find (\<lambda>task. task_id task = i) (tasks m) of
          None \<Rightarrow> \<lparr>result = Inl (NotFoundForUpdate i), store = m, printed = []\<rparr>
        | Some taskToUpdate \<Rightarrow>
            \<lparr>result = Inr (),
             store = m\<lparr>tasks := (tasks m)[slot_of i (tasks m) := taskToUpdate\<lparr>status := st\<rparr>]\<rparr>,
             printed = [StatusUpdated i st]\<rparr>)"

section \<open>Sequences of calls\<close>

text \<open>
  The calls a client of a \<open>TaskManager\<close> can make. A thrown error does not end the
  client (the menu loop catches it), so a sequence of calls goes on after a failure,
  from the manager as the failed call left it.
\<close>

datatype call =
    AddTask string string
  | RemoveTask int
  | ListTasks
  | ClearTasks
  | UpdateTaskStatus int string

fun perform :: "call \<Rightarrow> TaskManager \<Rightarrow> outcome" where
  "perform (AddTask nm descr) m = addTask nm descr m"
| "perform (RemoveTask i) m = removeTask i m"
| "perform ListTasks m = listTasks m"
| "perform ClearTasks m = clearTasks m"
| "perform (UpdateTaskStatus i st) m = updateTaskStatus i st m"

text \<open>The manager after a sequence of calls, and everything the calls wrote.\<close>

fun run :: "call list \<Rightarrow> TaskManager \<Rightarrow> TaskManager" where
  "run [] m = m"
| "run (c # cs) m = run cs (store (perform c m))"




text \<open>
  The managers that the program can be in: what a sequence of calls makes of
  \<open>new TaskManager()\<close>. In them the ids are pairwise different and below the counter.
\<close>

definition ids_fresh :: "TaskManager \<Rightarrow> bool" where
  "ids_fresh m =
     (distinct (map task_id (tasks m)) \<and> list_all (\<lambda>task. task_id task < nextId m) (tasks m))"

section \<open>parseInt\<close>

text \<open>
  \<open>parseInt(string)\<close> with no radix, after ECMA-262: strip leading white space, take
  a sign, take a \<open>0x\<close> or \<open>0X\<close> prefix (the radix is then 16, else 10), and read
  the longest run of digits of the radix; what follows is ignored. No digit gives
  \<open>NaN\<close>, which is \<open>None\<close> here.
\<close>

definition digit_value :: "char \<Rightarrow> nat option" where
  "digit_value c =
     (let n = (of_char c :: nat)
      in if 48 \<le> n \<and> n \<le> 57 then Some (n - 48)
         else if 97 \<le> n \<and> n \<le> 122 then Some (n - 87)
         else if 65 \<le> n \<and> n \<le> 90 then Some (n - 55)
         else None)"

definition is_digit :: "nat \<Rightarrow> char \<Rightarrow> bool" where
  "is_digit R c = (case digit_value c of None \<Rightarrow> False | Some d \<Rightarrow> d < R)"

definition digits_value :: "nat \<Rightarrow> string \<Rightarrow> int" where
  "digits_value R Z =
     foldl (\<lambda>acc c. acc * int R + (case digit_value c of None \<Rightarrow> 0 | Some d \<Rightarrow> int d)) 0 Z"

text \<open>The digits after the sign: the radix, the run of digits and its value.\<close>

definition parse_digits :: "int \<Rightarrow> string \<Rightarrow> int option" where
  "parse_digits sign S1 =
     (let hex = (take 2 S1 = ''0x'' \<or> take 2 S1 = ''0X'');
          R = (if hex then 16 else 10 :: nat);
          S2 = (if hex then drop 2 S1 else S1);
          Z = takeWhile (is_digit R) S2
      in if Z = [] then None else Some (sign * digits_value R Z))"

definition parseInt :: "string \<Rightarrow> int option" where
  "parseInt str =
     (let S = dropWhile is_space str;
          sign = (if take 1 S = ''-'' then - 1 else 1 :: int);
          S1 = (if take 1 S = ''+'' \<or> take 1 S = ''-'' then drop 1 S else S)
      in parse_digits sign S1)"



section \<open>The menu loop\<close>

text \<open>
  \<open>promptSync\<close> is the input source: each call writes its prompt and returns the next
  line the user types, or \<open>null\<close> (\<open>None\<close>). The user's lines are a sequence that the
  program does not control, indexed by the number of prompts made so far.
\<close>

type_synonym keyboard = "nat \<Rightarrow> string option"

record world =
  manager :: TaskManager
  asked :: nat
  console :: "console_line list"
  running :: bool

definition say :: "console_line \<Rightarrow> world \<Rightarrow> world" where
  "say l w = w\<lparr>console := console w @ [l]\<rparr>"

definition promptSync :: "keyboard \<Rightarrow> string \<Rightarrow> world \<Rightarrow> string option \<times> world" where
  "promptSync kb ask w = (kb (asked w), (say (Ask ask) w)\<lparr>asked := asked w + 1\<rparr>)"

text \<open>\<open>x || ''\<close>: \<open>null\<close> and the empty string are the falsy values of a prompt.\<close>

definition or_empty :: "string option \<Rightarrow> string" where
  "or_empty x = (case x of None \<Rightarrow> [] | Some s \<Rightarrow> s)"

text \<open>A method call on the global \<open>manager\<close>: \<open>Some e\<close> when it throws \<open>e\<close>.\<close>

definition invoke :: "(TaskManager \<Rightarrow> outcome) \<Rightarrow> world \<Rightarrow> error option \<times> world" where
  "invoke f w =
     (let r = f (manager w)
      in (case result r of Inl e \<Rightarrow> Some e | Inr u \<Rightarrow> None,
          w\<lparr>manager := store r, console := console w @ printed r\<rparr>))"

text \<open>
  The end of the \<open>try\<close> block, reached when no statement of the \<open>switch\<close> threw: the
  message of the simulated delay, unless the choice was to exit. The delay itself is
  time and is not modelled.
\<close>

definition delay :: "world \<Rightarrow> error option \<times> world" where
  "delay w = (None, if running w then say Processing w else w)"

text \<open>
  The \<open>try\<close> block of one cycle, given the line read for the choice: the error thrown
  in it, if any, and the world at the throw or at the end of the block.
\<close>

definition try_block :: "keyboard \<Rightarrow> string option \<Rightarrow> world \<Rightarrow> error option \<times> world" where
  "try_block kb choice w =
     (if or_empty choice = [] then (None, say NoInput w)
      else
        let c = trim (or_empty choice) in
        if c = ''1'' then
          (let (a, w1) = promptSync kb ''Task Name: '' w;
               (b, w2) = promptSync kb ''Task Description (Optional): '' w1;
               (thrown, w3) = invoke (addTask (or_empty a) (or_empty b)) w2
           in case thrown of Some e \<Rightarrow> (Some e, w3) | None \<Rightarrow> delay w3)
        else if c = ''2'' then
          (let (thrown, w1) = invoke listTasks w
           in case thrown of Some e \<Rightarrow> (Some e, w1) | None \<Rightarrow> delay w1)
        else if c = ''3'' then
          (let (idStr, w1) = promptSync kb ''Enter Task ID to remove: '' w
           in case parseInt (trim (or_empty idStr)) of
                None \<Rightarrow> (Some InvalidId, w1)
              | Some i \<Rightarrow>
                  (let (thrown, w2) = invoke (removeTask i) w1
                   in case thrown of Some e \<Rightarrow> (Some e, w2) | None \<Rightarrow> delay w2))
        else if c = ''4'' then
          (let (listed, w1) = invoke listTasks w;
               (idStr, w2) = promptSync kb ''Enter Task ID to update status: '' w1
           in case parseInt (trim (or_empty idStr)) of
                None \<Rightarrow> (Some InvalidId, w2)
              | Some i \<Rightarrow>
                  (let (statusStr, w3) = promptSync kb ''New Status (Pending/Completed): '' w2;
                       (thrown, w4) = invoke (updateTaskStatus i (trim (or_empty statusStr))) w3
                   in case thrown of Some e \<Rightarrow> (Some e, w4) | None \<Rightarrow> delay w4))
        else if c = ''5'' then
          (let (thrown, w1) = invoke clearTasks w
           in case thrown of Some e \<Rightarrow> (Some e, w1) | None \<Rightarrow> delay w1)
        else if c = ''6'' then delay ((say Goodbye w)\<lparr>running := False\<rparr>)
        else delay (say InvalidSelection w))"

text \<open>
  One pass through the body of the \<open>while\<close> loop: the menu, the choice, the \<open>try\<close>
  block and its \<open>catch\<close>, which writes the message of whatever was thrown.
\<close>

definition cycle :: "keyboard \<Rightarrow> world \<Rightarrow> world" where
  "cycle kb w =
     (let (choice, w1) = promptSync kb ''Enter your choice (1-6): '' (say Menu w)
      in case try_block kb choice w1 of
           (None, w2) \<Rightarrow> w2
         | (Some e, w2) \<Rightarrow> say (OperationFailed e) w2)"

text \<open>
  \<open>runMenu\<close>. The loop ends only when the user chooses to exit, which need not happen:
  the model runs at most \<open>n\<close> cycles and stops earlier when \<open>running\<close> is false.
\<close>

fun loop :: "nat \<Rightarrow> keyboard \<Rightarrow> world \<Rightarrow> world" where
  "loop 0 kb w = w"
| "loop (Suc n) kb w = (if running w then loop n kb (cycle kb w) else w)"

definition runMenu :: "nat \<Rightarrow> keyboard \<Rightarrow> world" where
  "runMenu n kb = loop n kb \<lparr>manager = initial, asked = 0, console = [], running = True\<rparr>"

section \<open>Facts about lists and trimming\<close>

text \<open>A string trims to nothing exactly when it is empty or white space only.\<close>

lemma trim_Nil_iff: "trim s = [] \<longleftrightarrow> list_all is_space s"
proof
  assume "trim s = []"
  then have all: "\<forall>c\<in>set (dropWhile is_space s). is_space c"
    by (simp add: trim_def dropWhile_eq_Nil_conv)
  have "dropWhile is_space s = []"
  proof (rule ccontr)
    assume ne: "dropWhile is_space s \<noteq> []"
    then have "\<not> is_space (hd (dropWhile is_space s))" by (rule hd_dropWhile)
    moreover from ne have "hd (dropWhile is_space s) \<in> set (dropWhile is_space s)" by simp
    ultimately show False using all by blast
  qed
  then show "list_all is_space s" by (simp add: dropWhile_eq_Nil_conv list_all_iff)
next
  assume "list_all is_space s"
  then have d: "dropWhile is_space s = []" by (simp add: dropWhile_eq_Nil_conv list_all_iff)
  show "trim s = []" unfolding trim_def d by simp
qed


section \<open>Adding a task\<close>

text \<open>
  Claim C3. When the name trims to nothing, that is when it is empty or consists of
  white space only, \<open>addTask\<close> throws the empty-name error, which is a validation
  error, whatever the description; the manager is as it was, task list and id counter
  alike, and nothing is written.
\<close>

theorem addTask_blank_name:
  "trim nm = [] \<Longrightarrow>
     list_all is_space nm \<and>
     result (addTask nm descr m) = Inl EmptyName \<and>
     kind EmptyName = ValidationError \<and>
     store (addTask nm descr m) = m \<and>
     printed (addTask nm descr m) = []"
  by (simp add: addTask_def trim_Nil_iff)

theorem addTask_blank_name_witness:
  "trim '''' = [] \<and> trim [CHR '' '', CHR 0x09, CHR '' ''] = [] \<and>
   result (addTask '''' ''x'' initial) = Inl EmptyName \<and>
   store (addTask [CHR '' '', CHR 0x09, CHR '' ''] ''x'' initial) = initial"
proof -
  have a: "trim '''' = []" by (simp add: trim_def)
  have b: "trim [CHR '' '', CHR 0x09, CHR '' ''] = []" by (simp add: trim_def is_space_def)
  show ?thesis
    using a b addTask_blank_name [OF a, of "''x''" initial]
      addTask_blank_name [OF b, of "''x''" initial] by simp
qed

text \<open>
  Claim C4. When the name trims to something, \<open>addTask\<close> leaves the manager with the
  old tasks in their order followed by one new task, and with the id counter one higher.
  The new task has the old value of the counter as its id, the trimmed name, the trimmed
  description or, when that is empty, the text \<open>No description provided.\<close>, and the
  status \<open>Pending\<close>. A listing then shows the old tasks in their order and the new
  task after them.
\<close>

theorem addTask_creates:
  "trim nm \<noteq> [] \<Longrightarrow>
     store (addTask nm descr m) =
       \<lparr>tasks = tasks m @
          [\<lparr>task_id = nextId m, name = trim nm,
            description = (if trim descr = [] then ''No description provided.'' else trim descr),
            status = ''Pending''\<rparr>],
        nextId = nextId m + 1\<rparr> \<and>
     printed (listTasks (store (addTask nm descr m))) =
       TasksHeader # map task_line (tasks m) @
         [TaskLine False (nextId m) (trim nm) ''Pending'', TasksFooter]"
  by (simp add: addTask_def listTasks_def task_line_def Let_def)

theorem addTask_creates_witness:
  "trim ''Buy milk'' \<noteq> [] \<and>
   store (addTask ''Buy milk'' '''' initial) =
     \<lparr>tasks = [\<lparr>task_id = 1, name = ''Buy milk'',
                description = ''No description provided.'', status = ''Pending''\<rparr>],
      nextId = 2\<rparr>"
proof -
  have a: "trim ''Buy milk'' \<noteq> []" by (simp add: trim_def is_space_def)
  have b: "trim '''' = []" by (simp add: trim_def)
  have c: "trim ''Buy milk'' = ''Buy milk''" by (simp add: trim_def is_space_def)
  show ?thesis using a addTask_creates [OF a, of "''''" initial]
    by (simp add: b c initial_def)
qed

text \<open>
  Claim C2, as stated, fails: \<open>addTask\<close> is declared \<open>void\<close> and returns nothing, and
  besides changing the manager it writes a confirmation line to the console. On the
  name \<open>Buy milk\<close> and the new manager, the call returns the unit value and writes the
  line for task 1.
\<close>

theorem addTask_returns_nothing_and_prints:
  "result (addTask ''Buy milk'' '''' initial) = Inr () \<and>
   printed (addTask ''Buy milk'' '''' initial) = [TaskAdded 1 ''Buy milk''] \<and>
   printed (addTask ''Buy milk'' '''' initial) \<noteq> []"
  by (simp add: addTask_def trim_def is_space_def initial_def Let_def)

text \<open>
  Claim C2, amended. When the name trims to something, \<open>addTask\<close> returns nothing;
  the task it created (assigned id, trimmed name, stored description, status
  \<open>Pending\<close>) is the last task of the manager, after the tasks that were there; and its
  one effect besides that is the confirmation line on the console, which shows the
  assigned id and the trimmed name.
\<close>

theorem addTask_outcome:
  "trim nm \<noteq> [] \<Longrightarrow>
     result (addTask nm descr m) = Inr () \<and>
     printed (addTask nm descr m) = [TaskAdded (nextId m) (trim nm)] \<and>
     butlast (tasks (store (addTask nm descr m))) = tasks m \<and>
     last (tasks (store (addTask nm descr m))) =
       \<lparr>task_id = nextId m, name = trim nm,
        description = (if trim descr = [] then ''No description provided.'' else trim descr),
        status = ''Pending''\<rparr>"
  by (simp add: addTask_def Let_def)

theorem addTask_outcome_witness:
  "trim ''Task B'' \<noteq> [] \<and>
   result (addTask ''Task B'' ''desc'' initial) = Inr () \<and>
   printed (addTask ''Task B'' ''desc'' initial) = [TaskAdded 1 ''Task B'']"
proof -
  have a: "trim ''Task B'' \<noteq> []" by (simp add: trim_def is_space_def)
  have c: "trim ''Task B'' = ''Task B''" by (simp add: trim_def is_space_def)
  show ?thesis using a addTask_outcome [OF a, of "''desc''" initial]
    by (simp add: c initial_def)
qed

section \<open>Clearing\<close>

text \<open>
  Claim C8. From every manager, \<open>clearTasks\<close> returns normally and leaves no task,
  so that a listing shows the empty list, and it leaves the id counter as it was: a
  task added next gets the id that it would have got without the clearing. Clearing
  twice is clearing once: the second call does not fail and leaves the same manager.
\<close>

theorem clearTasks_empties:
  "result (clearTasks m) = Inr () \<and>
   tasks (store (clearTasks m)) = [] \<and>
   nextId (store (clearTasks m)) = nextId m \<and>
   printed (listTasks (store (clearTasks m))) = [TasksHeader, TasksEmpty] \<and>
   clearTasks (store (clearTasks m)) = clearTasks m \<and>
   (trim nm \<noteq> [] \<longrightarrow>
      printed (addTask nm descr (store (clearTasks m))) = [TaskAdded (nextId m) (trim nm)])"
  by (simp add: clearTasks_def listTasks_def addTask_def Let_def)

theorem clearTasks_empties_witness:
  "trim ''c'' \<noteq> [] \<and>
   store (clearTasks (store (addTask ''a'' '''' initial))) = \<lparr>tasks = [], nextId = 2\<rparr> \<and>
   printed (addTask ''c'' '''' (store (clearTasks (store (addTask ''a'' '''' initial))))) =
     [TaskAdded 2 ''c'']"
proof -
  have c: "trim ''c'' = ''c''" by (simp add: trim_def is_space_def)
  have s: "store (addTask ''a'' '''' initial) =
      \<lparr>tasks = [\<lparr>task_id = 1, name = ''a'', description = ''No description provided.'',
                 status = ''Pending''\<rparr>], nextId = 2\<rparr>"
    by (simp add: addTask_def initial_def Let_def trim_def is_space_def)
  show ?thesis
    using clearTasks_empties [of "store (addTask ''a'' '''' initial)" "''c''" "''''"]
    by (simp add: c s clearTasks_def)
qed

section \<open>Updating a status\<close>

text \<open>
  Claim C6. When the status is neither \<open>Pending\<close> nor \<open>Completed\<close>, compared as
  strings and so with regard to case, \<open>updateTaskStatus\<close> throws the invalid-status
  error, which is a validation error, for every id; the manager is as it was, so no
  task has another status than before, also when a task with the id exists.
\<close>

theorem updateTaskStatus_invalid:
  "st \<noteq> ''Pending'' \<Longrightarrow> st \<noteq> ''Completed'' \<Longrightarrow>
     result (updateTaskStatus i st m) = Inl (InvalidStatus st) \<and>
     kind (InvalidStatus st) = ValidationError \<and>
     store (updateTaskStatus i st m) = m \<and>
     printed (updateTaskStatus i st m) = []"
  by (simp add: updateTaskStatus_def)

theorem updateTaskStatus_invalid_witness:
  "''pending'' \<noteq> ''Pending'' \<and> ''pending'' \<noteq> ''Completed'' \<and>
   result (updateTaskStatus 1 ''pending''
     \<lparr>tasks = [\<lparr>task_id = 1, name = ''a'', description = ''d'', status = ''Completed''\<rparr>],
      nextId = 2\<rparr>) = Inl (InvalidStatus ''pending'') \<and>
   store (updateTaskStatus 1 ''pending''
     \<lparr>tasks = [\<lparr>task_id = 1, name = ''a'', description = ''d'', status = ''Completed''\<rparr>],
      nextId = 2\<rparr>) =
     \<lparr>tasks = [\<lparr>task_id = 1, name = ''a'', description = ''d'', status = ''Completed''\<rparr>],
      nextId = 2\<rparr>"
proof -
  have a: "''pending'' \<noteq> ''Pending''" by simp
  have b: "''pending'' \<noteq> ''Completed''" by simp
  show ?thesis
    using a b updateTaskStatus_invalid [OF a b, of 1
      "\<lparr>tasks = [\<lparr>task_id = 1, name = ''a'', description = ''d'', status = ''Completed''\<rparr>],
        nextId = 2\<rparr>"]
    by simp
qed

section \<open>Evaluation on concrete inputs\<close>

text \<open>The definitions that a concrete run unfolds.\<close>

lemmas string_defs = trim_def is_space_def
lemmas manager_defs = addTask_def removeTask_def listTasks_def clearTasks_def
  updateTaskStatus_def slot_of_def task_line_def initial_def

section \<open>The ids that addTask assigns\<close>









section \<open>The managers that the program reaches\<close>

lemma find_skip: "\<forall>x\<in>set ys. \<not> P x \<Longrightarrow> find P (ys @ zs) = find P zs"
  by (induction ys) simp_all

lemma find_slot:
  "find P xs = Some t \<Longrightarrow>
     length (takeWhile (\<lambda>x. \<not> P x) xs) < length xs \<and>
     xs ! length (takeWhile (\<lambda>x. \<not> P x) xs) = t \<and> P t"
  by (induction xs) (auto split: if_splits)

text \<open>In a list with distinct keys, the element with a key splits the list.\<close>

lemma distinct_key_split:
  assumes "distinct (map f xs)" and "t \<in> set xs"
  shows "\<exists>ys zs. xs = ys @ t # zs \<and> (\<forall>u\<in>set ys. f u \<noteq> f t) \<and> (\<forall>u\<in>set zs. f u \<noteq> f t)"
proof -
  from assms(2) obtain ys zs where xs: "xs = ys @ t # zs"
    by (auto dest: split_list)
  with assms(1) have "f t \<notin> f ` set ys" and "f t \<notin> f ` set zs"
    by auto
  then have "(\<forall>u\<in>set ys. f u \<noteq> f t) \<and> (\<forall>u\<in>set zs. f u \<noteq> f t)"
    by (metis imageI)
  with xs show ?thesis by blast
qed

lemma ids_fresh_perform: "ids_fresh m \<Longrightarrow> ids_fresh (store (perform c m))"
proof (cases c)
  case (AddTask nm descr)
  assume "ids_fresh m"
  then have d: "distinct (map task_id (tasks m))"
    and b: "\<forall>task\<in>set (tasks m). task_id task < nextId m"
    by (simp_all add: ids_fresh_def list_all_iff)
  from b have "nextId m \<notin> task_id ` set (tasks m)" by auto
  with d b AddTask show ?thesis
    by (auto simp: ids_fresh_def list_all_iff addTask_def Let_def)
next
  case (RemoveTask i)
  assume "ids_fresh m"
  with RemoveTask show ?thesis
    by (auto simp: ids_fresh_def list_all_iff removeTask_def Let_def distinct_map_filter)
next
  case ListTasks
  assume "ids_fresh m"
  with ListTasks show ?thesis by (simp add: listTasks_def)
next
  case ClearTasks
  assume "ids_fresh m"
  with ClearTasks show ?thesis by (simp add: clearTasks_def ids_fresh_def)
next
  case (UpdateTaskStatus i st)
  assume fresh: "ids_fresh m"
  show ?thesis
  proof (cases "find (\<lambda>task. task_id task = i) (tasks m)")
    case None
    with fresh UpdateTaskStatus show ?thesis by (simp add: updateTaskStatus_def)
  next
    case (Some t)
    let ?k = "slot_of i (tasks m)"
    from find_slot [OF Some] have k: "?k < length (tasks m)" and at: "tasks m ! ?k = t"
      by (simp_all add: slot_of_def)
    have same: "map task_id ((tasks m)[?k := t\<lparr>status := st\<rparr>]) = map task_id (tasks m)"
      using k at by (simp add: map_update list_update_same_conv)
    have "set ((tasks m)[?k := t\<lparr>status := st\<rparr>]) \<subseteq> insert (t\<lparr>status := st\<rparr>) (set (tasks m))"
      by (rule set_update_subset_insert)
    moreover have "t \<in> set (tasks m)" using k at by (metis nth_mem)
    ultimately have "\<forall>u\<in>set ((tasks m)[?k := t\<lparr>status := st\<rparr>]). task_id u < nextId m"
      using fresh by (auto simp: ids_fresh_def list_all_iff)
    with fresh same Some UpdateTaskStatus show ?thesis
      by (simp add: updateTaskStatus_def ids_fresh_def list_all_iff)
  qed
qed

lemma ids_fresh_run: "ids_fresh m \<Longrightarrow> ids_fresh (run cs m)"
  by (induction cs arbitrary: m) (simp_all add: ids_fresh_perform)

lemma ids_fresh_reachable: "ids_fresh (run cs initial)"
  by (rule ids_fresh_run) (simp add: ids_fresh_def initial_def)

lemma two_tasks:
  "run [AddTask ''a'' '''', AddTask ''b'' ''x''] initial =
     \<lparr>tasks = [\<lparr>task_id = 1, name = ''a'', description = ''No description provided.'',
                status = ''Pending''\<rparr>,
               \<lparr>task_id = 2, name = ''b'', description = ''x'', status = ''Pending''\<rparr>],
      nextId = 3\<rparr>"
  by (simp add: manager_defs string_defs Let_def)

section \<open>Removing a task\<close>

text \<open>
  Claim C5. Let \<open>m\<close> be a manager that a sequence of calls makes of a new one. If a
  task \<open>t\<close> of \<open>m\<close> has the id \<open>i\<close>, then \<open>removeTask i\<close> returns normally and leaves
  the tasks before \<open>t\<close> followed by the tasks after \<open>t\<close>, in their order, and the same id
  counter: exactly \<open>t\<close> is gone. If no task of \<open>m\<close> has the id \<open>i\<close>, then \<open>removeTask i\<close>
  throws the not-found error and leaves \<open>m\<close> as it was.
\<close>

theorem removeTask_deletes_or_fails:
  assumes "m = run cs initial"
  shows "(t \<in> set (tasks m) \<and> task_id t = i \<longrightarrow>
           (\<exists>before after. tasks m = before @ t # after \<and>
              result (removeTask i m) = Inr () \<and>
              store (removeTask i m) = \<lparr>tasks = before @ after, nextId = nextId m\<rparr>)) \<and>
         (i \<notin> task_id ` set (tasks m) \<longrightarrow>
            result (removeTask i m) = Inl (NotFound i) \<and>
            kind (NotFound i) = NotFoundError \<and>
            store (removeTask i m) = m)"
proof (intro conjI impI)
  assume t: "t \<in> set (tasks m) \<and> task_id t = i"
  have "distinct (map task_id (tasks m))"
    using assms ids_fresh_reachable [of cs] by (simp add: ids_fresh_def)
  with t obtain ys zs where split: "tasks m = ys @ t # zs"
    and ys: "\<forall>u\<in>set ys. task_id u \<noteq> i" and zs: "\<forall>u\<in>set zs. task_id u \<noteq> i"
    using distinct_key_split [of task_id "tasks m" t] by auto
  have fys: "filter (\<lambda>task. task_id task \<noteq> i) ys = ys" using ys by (simp add: filter_id_conv)
  have fzs: "filter (\<lambda>task. task_id task \<noteq> i) zs = zs" using zs by (simp add: filter_id_conv)
  have kept: "filter (\<lambda>task. task_id task \<noteq> i) (tasks m) = ys @ zs"
    using t by (simp add: split fys fzs)
  have "result (removeTask i m) = Inr () \<and>
        store (removeTask i m) = \<lparr>tasks = ys @ zs, nextId = nextId m\<rparr>"
    by (simp add: removeTask_def Let_def kept) (simp add: split)
  with split show "\<exists>before after. tasks m = before @ t # after \<and>
      result (removeTask i m) = Inr () \<and>
      store (removeTask i m) = \<lparr>tasks = before @ after, nextId = nextId m\<rparr>"
    by blast
next
  assume "i \<notin> task_id ` set (tasks m)"
  then have kept: "filter (\<lambda>task. task_id task \<noteq> i) (tasks m) = tasks m"
    by (auto simp: filter_id_conv)
  show "result (removeTask i m) = Inl (NotFound i)"
    by (simp add: removeTask_def Let_def kept)
  show "kind (NotFound i) = NotFoundError" by simp
  show "store (removeTask i m) = m"
    by (simp add: removeTask_def Let_def kept)
qed

theorem removeTask_deletes_or_fails_witness:
  "store (removeTask 1 (run [AddTask ''a'' '''', AddTask ''b'' ''x''] initial)) =
     \<lparr>tasks = [\<lparr>task_id = 2, name = ''b'', description = ''x'', status = ''Pending''\<rparr>],
      nextId = 3\<rparr> \<and>
   result (removeTask 7 (run [AddTask ''a'' '''', AddTask ''b'' ''x''] initial)) =
     Inl (NotFound 7) \<and>
   store (removeTask 7 (run [AddTask ''a'' '''', AddTask ''b'' ''x''] initial)) =
     run [AddTask ''a'' '''', AddTask ''b'' ''x''] initial"
proof -
  let ?cs = "[AddTask ''a'' '''', AddTask ''b'' ''x'']"
  let ?a = "\<lparr>task_id = 1, name = ''a'', description = ''No description provided.'',
             status = ''Pending''\<rparr>"
  have present: "?a \<in> set (tasks (run ?cs initial)) \<and> task_id ?a = 1"
    unfolding two_tasks by simp
  have absent: "7 \<notin> task_id ` set (tasks (run ?cs initial))"
    unfolding two_tasks by simp
  from removeTask_deletes_or_fails [OF refl, of ?a ?cs 1] present
  have "\<exists>before after. tasks (run ?cs initial) = before @ ?a # after \<and>
      result (removeTask 1 (run ?cs initial)) = Inr () \<and>
      store (removeTask 1 (run ?cs initial)) =
        \<lparr>tasks = before @ after, nextId = nextId (run ?cs initial)\<rparr>"
    by blast
  then have first: "store (removeTask 1 (run ?cs initial)) =
     \<lparr>tasks = [\<lparr>task_id = 2, name = ''b'', description = ''x'', status = ''Pending''\<rparr>],
      nextId = 3\<rparr>"
    unfolding two_tasks by (auto simp: append_eq_Cons_conv Cons_eq_append_conv)
  from removeTask_deletes_or_fails [OF refl, of ?a ?cs 7] absent
  have "result (removeTask 7 (run ?cs initial)) = Inl (NotFound 7) \<and>
      store (removeTask 7 (run ?cs initial)) = run ?cs initial"
    by blast
  with first show ?thesis by simp
qed

section \<open>Setting a status\<close>

text \<open>
  Claim C7. Let \<open>m\<close> be a manager that a sequence of calls makes of a new one, \<open>t\<close> a
  task of \<open>m\<close> with the id \<open>i\<close>, and \<open>st\<close> one of \<open>Pending\<close> and \<open>Completed\<close>. Then
  \<open>updateTaskStatus i st\<close> returns normally and leaves the same list with \<open>t\<close> replaced,
  at its place, by \<open>t\<close> with the status \<open>st\<close>: the id, name and description of \<open>t\<close>, every
  other task, the order, the number of tasks and the id counter are as they were.
\<close>

theorem updateTaskStatus_sets_status:
  assumes "m = run cs initial"
    and "st = ''Pending'' \<or> st = ''Completed''"
    and "t \<in> set (tasks m)" and "task_id t = i"
  shows "\<exists>before after. tasks m = before @ t # after \<and>
           result (updateTaskStatus i st m) = Inr () \<and>
           store (updateTaskStatus i st m) =
             \<lparr>tasks = before @ t\<lparr>status := st\<rparr> # after, nextId = nextId m\<rparr>"
proof -
  have "distinct (map task_id (tasks m))"
    using assms(1) ids_fresh_reachable [of cs] by (simp add: ids_fresh_def)
  with assms(3,4) obtain ys zs where split: "tasks m = ys @ t # zs"
    and ys: "\<forall>u\<in>set ys. task_id u \<noteq> i"
    using distinct_key_split [of task_id "tasks m" t] by auto
  have found: "find (\<lambda>task. task_id task = i) (tasks m) = Some t"
    using ys assms(4) by (simp add: split find_skip)
  have slot: "slot_of i (tasks m) = length ys"
    using ys assms(4) by (simp add: slot_of_def split takeWhile_append2)
  have upd: "(tasks m)[slot_of i (tasks m) := t\<lparr>status := st\<rparr>] = ys @ t\<lparr>status := st\<rparr> # zs"
    unfolding slot by (simp add: split)
  have "result (updateTaskStatus i st m) = Inr () \<and>
        store (updateTaskStatus i st m) =
          \<lparr>tasks = ys @ t\<lparr>status := st\<rparr> # zs, nextId = nextId m\<rparr>"
    using assms(2) by (simp add: updateTaskStatus_def found upd del: list_update_append)
      
  with split show ?thesis by blast
qed

theorem updateTaskStatus_sets_status_witness:
  "store (updateTaskStatus 2 ''Completed''
      (run [AddTask ''a'' '''', AddTask ''b'' ''x''] initial)) =
     \<lparr>tasks = [\<lparr>task_id = 1, name = ''a'', description = ''No description provided.'',
                status = ''Pending''\<rparr>,
               \<lparr>task_id = 2, name = ''b'', description = ''x'', status = ''Completed''\<rparr>],
      nextId = 3\<rparr>"
proof -
  let ?cs = "[AddTask ''a'' '''', AddTask ''b'' ''x'']"
  let ?b = "\<lparr>task_id = 2, name = ''b'', description = ''x'', status = ''Pending''\<rparr>"
  have st: "''Completed'' = ''Pending'' \<or> ''Completed'' = ''Completed''" by simp
  have present: "?b \<in> set (tasks (run ?cs initial))" unfolding two_tasks by simp
  have key: "task_id ?b = 2" by simp
  from updateTaskStatus_sets_status [OF refl st present key]
  show ?thesis
    unfolding two_tasks by (auto simp: append_eq_Cons_conv Cons_eq_append_conv)
qed

section \<open>One cycle of the menu loop\<close>

lemma running_say [simp]: "running (say l w) = running w"
  by (simp add: say_def)

lemma running_promptSync [simp]: "running (snd (promptSync kb a w)) = running w"
  by (simp add: promptSync_def)

lemma running_invoke [simp]: "running (snd (invoke f w)) = running w"
  by (simp add: invoke_def Let_def)

lemma running_delay [simp]: "running (snd (delay w)) = running w"
  by (simp add: delay_def)

lemma fst_delay [simp]: "fst (delay w) = None"
  by (simp add: delay_def)








section \<open>The id typed by the user\<close>












lemma manager_say [simp]: "manager (say l w) = manager w"
  by (simp add: say_def)

lemma manager_promptSync [simp]: "manager (snd (promptSync kb a w)) = manager w"
  by (simp add: promptSync_def say_def)

lemma manager_invoke [simp]: "manager (snd (invoke f w)) = store (f (manager w))"
  by (simp add: invoke_def Let_def)

lemma manager_delay [simp]: "manager (snd (delay w)) = manager w"
  by (simp add: delay_def)

lemma store_listTasks [simp]: "store (listTasks m) = m"
  by (simp add: listTasks_def)

lemma last_console_say [simp]: "last (console (say l w)) = l"
  by (simp add: say_def)










end
